theory Spec2Isabelle
  imports Main
begin

section \<open>Data model\<close>

text \<open>
  The command handlers of \<^verbatim>\<open>src/commands/follow.ts\<close> (single-target \<^verbatim>\<open>follow\<close> and
  \<^verbatim>\<open>unfollow\<close>) and of \<^verbatim>\<open>src/unnamed/part_000\<close> (the batch \<^verbatim>\<open>follow\<close> with
  \<^verbatim>\<open>--json\<close>) are embedded as functions on an explicit process state. Everything a handler
  does besides computing is an \<^emph>\<open>event\<close> appended to the state's trace: a line on
  stdout or stderr, a call of a collaborator, the 500 ms timer. \<^verbatim>\<open>process.exit(1)\<close> ends
  the handler with exit code 1; a handler that runs to its end leaves exit code 0.
\<close>

text \<open>JavaScript truthiness of an optional string: \<^verbatim>\<open>undefined\<close>, \<^verbatim>\<open>null\<close> and
  the empty string are falsy.\<close>

definition truthy :: "string option \<Rightarrow> bool" where
  "truthy s = (case s of None \<Rightarrow> False | Some v \<Rightarrow> v \<noteq> [])"

text \<open>An optional string inside a template literal: \<^verbatim>\<open>undefined\<close> prints as the word.\<close>

definition template :: "string option \<Rightarrow> string" where
  "template s = (case s of None \<Rightarrow> ''undefined'' | Some v \<Rightarrow> v)"

text \<open>The nullish coalescing operator \<^verbatim>\<open>??\<close> on an optional string.\<close>

definition nullish :: "string option \<Rightarrow> string \<Rightarrow> string" where
  "nullish s d = (case s of None \<Rightarrow> d | Some v \<Rightarrow> v)"

text \<open>The test \<^verbatim>\<open>/^\d+$/.test(input)\<close>: one or more ASCII digits and nothing else
  (no \<^verbatim>\<open>m\<close> flag, so \<^verbatim>\<open>^\<close> and \<^verbatim>\<open>$\<close> are the ends of the string).\<close>

definition isDigit :: "char \<Rightarrow> bool" where
  "isDigit c = (c \<in> set ''0123456789'')"

definition isUserId :: "string \<Rightarrow> bool" where
  "isUserId s = (s \<noteq> [] \<and> list_all isDigit s)"

text \<open>The cookies returned by \<^verbatim>\<open>ctx.resolveCredentialsFromOptions\<close>.\<close>

record twitter_cookies =
  authToken :: "string option"
  ct0 :: "string option"

text \<open>
  Modelled from the spec: the result types of the platform client, whose declaration
  (\<^verbatim>\<open>lib/twitter-client.ts\<close>) is not among the sources. The spec gives
  \<^verbatim>\<open>getUserIdByUsername(handle) -> {success, userId?, username?, error?}\<close> and
  \<^verbatim>\<open>followUser(id) -> {success, username?, error?}\<close>; the handlers read exactly these
  fields.
\<close>

record lookup_result =
  lookup_success :: bool
  lookup_userId :: "string option"
  lookup_username :: "string option"
  lookup_error :: "string option"

record mutation_result =
  mutation_success :: bool
  mutation_username :: "string option"
  mutation_error :: "string option"

text \<open>
  The platform client is a parameter. Its answers may depend on, and its calls may change,
  the outside world \<open>'w\<close> (the platform's state, the network), which is threaded through
  every call.
\<close>

record 'w client =
  getUserIdByUsername :: "string \<Rightarrow> 'w \<Rightarrow> lookup_result \<times> 'w"
  followUser :: "string \<Rightarrow> 'w \<Rightarrow> mutation_result \<times> 'w"
  follow :: "string \<Rightarrow> 'w \<Rightarrow> mutation_result \<times> 'w"
  unfollow :: "string \<Rightarrow> 'w \<Rightarrow> mutation_result \<times> 'w"

text \<open>One element of the batch command's \<^verbatim>\<open>results\<close> array, and the object handed to
  \<^verbatim>\<open>JSON.stringify\<close>.\<close>

record result_row =
  input :: string
  userId :: "string option"
  success :: bool
  error :: "string option"

record batch_report =
  report_results :: "result_row list"
  report_failures :: nat

text \<open>
  The observable events. \<open>ConsoleLogJSON r\<close> stands for
  \<^verbatim>\<open>console.log(JSON.stringify(r, null, 2))\<close>: the document is kept as the value that is
  serialised. \<open>NormalizeHandle\<close>, \<open>GetUserIdByUsername\<close>, \<open>FollowUser\<close>, \<open>Follow\<close> and
  \<open>Unfollow\<close> record a call of the collaborator of that name with its argument;
  \<open>SetTimeout ms\<close> is the awaited timer.
\<close>

datatype event =
    ConsoleError string
  | ConsoleLog string
  | ConsoleLogJSON batch_report
  | NormalizeHandle string
  | GetUserIdByUsername string
  | FollowUser string
  | Follow string
  | Unfollow string
  | SetTimeout nat

text \<open>The process state: the trace so far and the outside world. The batch command adds
  its two local variables \<^verbatim>\<open>results\<close> and \<^verbatim>\<open>failures\<close>.\<close>

record 'w proc =
  events :: "event list"
  world :: 'w

record 'w batch = "'w proc" +
  results :: "result_row list"
  failures :: nat

definition emit :: "event \<Rightarrow> ('w, 'z) proc_scheme \<Rightarrow> ('w, 'z) proc_scheme" where
  "emit e st = st\<lparr>events := events st @ [e]\<rparr>"

text \<open>The loop over \<^verbatim>\<open>warnings\<close> that opens every handler.\<close>

definition printWarnings :: "(string \<Rightarrow> string) \<Rightarrow> string list \<Rightarrow> event list" where
  "printWarnings p warnings = map (\<lambda>warning. ConsoleError (p ''warn'' @ warning)) warnings"

definition missingCredentials :: "(string \<Rightarrow> string) \<Rightarrow> event" where
  "missingCredentials p = ConsoleError (p ''err'' @ ''Missing required credentials'')"

section \<open>Single-target commands (follow.ts)\<close>

record resolved =
  resolved_userId :: string
  resolved_username :: "string option"

text \<open>\<^verbatim>\<open>username ? `@${username}` : fallback\<close>\<close>

definition atName :: "string option \<Rightarrow> string \<Rightarrow> string" where
  "atName username fallback =
     (case username of
        None \<Rightarrow> fallback
      | Some u \<Rightarrow> if u \<noteq> [] then ''@'' @ u else fallback)"

text \<open>\<^verbatim>\<open>resolveUserId(client, usernameOrId, ctx)\<close>, lines 6-30; \<open>None\<close> is \<^verbatim>\<open>null\<close>.
  \<open>p\<close> is \<^verbatim>\<open>ctx.p\<close> and \<open>normalizeHandle\<close> the imported normaliser.\<close>

definition resolveUserId ::
  "(string \<Rightarrow> string option) \<Rightarrow> (string \<Rightarrow> string) \<Rightarrow> 'w client \<Rightarrow> string \<Rightarrow>
   'w proc \<Rightarrow> resolved option \<times> 'w proc" where
  "resolveUserId normalizeHandle p cl usernameOrId st =
     (if isUserId usernameOrId then
        (Some \<lparr>resolved_userId = usernameOrId, resolved_username = None\<rparr>, st)
      else
        let st1 = emit (NormalizeHandle usernameOrId) st;
            invalid = (None, emit (ConsoleError (p ''err'' @ ''Invalid username: '' @ usernameOrId)) st1)
        in
        (case normalizeHandle usernameOrId of
           None \<Rightarrow> invalid
         | Some handle \<Rightarrow>
             if handle = [] then invalid
             else
               (case getUserIdByUsername cl handle (world st1) of
                  (lookup, w') \<Rightarrow>
                    let st2 = (emit (GetUserIdByUsername handle) st1)\<lparr>world := w'\<rparr>;
                        notFound =
                          (None, emit (ConsoleError (p ''err'' @ ''Failed to find user @'' @ handle
                             @ '': '' @ nullish (lookup_error lookup) ''Unknown error'')) st2)
                    in
                    (case lookup_userId lookup of
                       None \<Rightarrow> notFound
                     | Some uid \<Rightarrow>
                         if \<not> lookup_success lookup \<or> uid = [] then notFound
                         else
                           (Some \<lparr>resolved_userId = uid,
                                  resolved_username = lookup_username lookup\<rparr>, st2)))))"

text \<open>The two mutations of follow.ts differ in the client method and the wording only.\<close>

datatype mutation = DoFollow | DoUnfollow

fun callMutation :: "mutation \<Rightarrow> 'w client \<Rightarrow> string \<Rightarrow> 'w \<Rightarrow> mutation_result \<times> 'w" where
  "callMutation DoFollow cl = follow cl"
| "callMutation DoUnfollow cl = unfollow cl"

fun mutationEvent :: "mutation \<Rightarrow> string \<Rightarrow> event" where
  "mutationEvent DoFollow u = Follow u"
| "mutationEvent DoUnfollow u = Unfollow u"

fun successText :: "mutation \<Rightarrow> string" where
  "successText DoFollow = ''Now following ''"
| "successText DoUnfollow = ''Unfollowed ''"

fun failureText :: "mutation \<Rightarrow> string" where
  "failureText DoFollow = ''Failed to follow ''"
| "failureText DoUnfollow = ''Failed to unfollow ''"

text \<open>The action of \<^verbatim>\<open>follow\<close> (lines 37-70) and of \<^verbatim>\<open>unfollow\<close> (lines 76-109):
  the exit code and the final state. \<open>cookies\<close> and \<open>warnings\<close> are what
  \<^verbatim>\<open>ctx.resolveCredentialsFromOptions\<close> returned.\<close>

definition singleAction ::
  "mutation \<Rightarrow> (string \<Rightarrow> string option) \<Rightarrow> (string \<Rightarrow> string) \<Rightarrow> 'w client \<Rightarrow>
   twitter_cookies \<Rightarrow> string list \<Rightarrow> string \<Rightarrow> 'w \<Rightarrow> nat \<times> 'w proc" where
  "singleAction m normalizeHandle p cl cookies warnings usernameOrId w =
     (let st0 = \<lparr>events = printWarnings p warnings, world = w\<rparr> in
      if \<not> truthy (authToken cookies) \<or> \<not> truthy (ct0 cookies) then (1, emit (missingCredentials p) st0)
      else
        (case resolveUserId normalizeHandle p cl usernameOrId st0 of
           (None, st1) \<Rightarrow> (1, st1)
         | (Some r, st1) \<Rightarrow>
             let displayName = atName (resolved_username r) (resolved_userId r) in
             (case callMutation m cl (resolved_userId r) (world st1) of
                (result, w') \<Rightarrow>
                  let st2 = (emit (mutationEvent m (resolved_userId r)) st1)\<lparr>world := w'\<rparr> in
                  if mutation_success result then
                    (0, emit (ConsoleLog (p ''ok'' @ successText m
                                @ atName (mutation_username result) displayName)) st2)
                  else
                    (1, emit (ConsoleError (p ''err'' @ failureText m @ displayName
                                @ '': '' @ template (mutation_error result))) st2))))"

definition followCommand ::
  "(string \<Rightarrow> string option) \<Rightarrow> (string \<Rightarrow> string) \<Rightarrow> 'w client \<Rightarrow>
   twitter_cookies \<Rightarrow> string list \<Rightarrow> string \<Rightarrow> 'w \<Rightarrow> nat \<times> 'w proc" where
  "followCommand = singleAction DoFollow"

definition unfollowCommand ::
  "(string \<Rightarrow> string option) \<Rightarrow> (string \<Rightarrow> string) \<Rightarrow> 'w client \<Rightarrow>
   twitter_cookies \<Rightarrow> string list \<Rightarrow> string \<Rightarrow> 'w \<Rightarrow> nat \<times> 'w proc" where
  "unfollowCommand = singleAction DoUnfollow"

section \<open>Batch follow command (part_000)\<close>

text \<open>\<^verbatim>\<open>if (!cmdOpts.json) console.error(...)\<close> and its \<^verbatim>\<open>console.log\<close> twin.\<close>

definition unlessJSON :: "bool \<Rightarrow> event \<Rightarrow> 'w batch \<Rightarrow> 'w batch" where
  "unlessJSON json e st = (if \<not> json then emit e st else st)"

text \<open>A failed target: \<^verbatim>\<open>failures += 1; results.push(row)\<close>.\<close>

definition recordFailure :: "result_row \<Rightarrow> 'w batch \<Rightarrow> 'w batch" where
  "recordFailure row st = st\<lparr>results := results st @ [row], failures := failures st + 1\<rparr>"

text \<open>Lines 66-83: the mutation for a resolved target, its record, its progress line and
  the delay. \<open>n\<close> is \<^verbatim>\<open>userIdOrHandles.length\<close>.\<close>

definition followResolved ::
  "(string \<Rightarrow> string) \<Rightarrow> 'w client \<Rightarrow> bool \<Rightarrow> nat \<Rightarrow> bool \<Rightarrow> string \<Rightarrow> string \<Rightarrow>
   'w batch \<Rightarrow> 'w batch" where
  "followResolved p cl json n isId uid displayName st =
     (case followUser cl uid (world st) of
        (result, w') \<Rightarrow>
          let st1 = (emit (FollowUser uid) st)\<lparr>world := w'\<rparr>;
              st2 =
                (if mutation_success result then
                   unlessJSON json
                     (ConsoleLog (p ''ok'' @ ''Followed '' @ displayName
                        @ (if isId then [] else '' (ID: '' @ uid @ '')'')))
                     (st1\<lparr>results := results st1 @
                        [\<lparr>input = displayName, userId = Some uid, success = True, error = None\<rparr>]\<rparr>)
                 else
                   unlessJSON json
                     (ConsoleError (p ''err'' @ ''Failed to follow '' @ displayName
                        @ '': '' @ template (mutation_error result)))
                     (recordFailure
                        \<lparr>input = displayName, userId = Some uid, success = False,
                         error = mutation_error result\<rparr> st1))
          in if n > 1 then emit (SetTimeout 500) st2 else st2)"

text \<open>Lines 31-84: one iteration of the loop. The two \<^verbatim>\<open>continue\<close> statements return
  before the mutation and before the delay.\<close>

definition followTarget ::
  "(string \<Rightarrow> string option) \<Rightarrow> (string \<Rightarrow> string) \<Rightarrow> 'w client \<Rightarrow> bool \<Rightarrow> nat \<Rightarrow>
   string \<Rightarrow> 'w batch \<Rightarrow> 'w batch" where
  "followTarget normalizeHandle p cl json n inp st =
     (if isUserId inp then followResolved p cl json n True inp inp st
      else
        let st1 = emit (NormalizeHandle inp) st;
            invalid =
              unlessJSON json (ConsoleError (p ''err'' @ ''Invalid handle: '' @ inp))
                (recordFailure
                   \<lparr>input = inp, userId = None, success = False,
                    error = Some ''Invalid handle format''\<rparr> st1)
        in
        (case normalizeHandle inp of
           None \<Rightarrow> invalid
         | Some handle \<Rightarrow>
             if handle = [] then invalid
             else
               let displayName = ''@'' @ handle in
               (case getUserIdByUsername cl handle (world st1) of
                  (lookupResult, w') \<Rightarrow>
                    let st2 = (emit (GetUserIdByUsername handle) st1)\<lparr>world := w'\<rparr>;
                        err = nullish (lookup_error lookupResult) ''User not found'';
                        notFound =
                          unlessJSON json
                            (ConsoleError (p ''err'' @ ''Failed to find user '' @ displayName
                               @ '': '' @ err))
                            (recordFailure
                               \<lparr>input = displayName, userId = None, success = False,
                                error = Some err\<rparr> st2)
                    in
                    (case lookup_userId lookupResult of
                       None \<Rightarrow> notFound
                     | Some uid \<Rightarrow>
                         if \<not> lookup_success lookupResult \<or> uid = [] then notFound
                         else followResolved p cl json n False uid displayName st2))))"

text \<open>The \<^verbatim>\<open>for (const input of userIdOrHandles)\<close> loop.\<close>

fun followLoop ::
  "(string \<Rightarrow> string option) \<Rightarrow> (string \<Rightarrow> string) \<Rightarrow> 'w client \<Rightarrow> bool \<Rightarrow> nat \<Rightarrow>
   string list \<Rightarrow> 'w batch \<Rightarrow> 'w batch" where
  "followLoop normalizeHandle p cl json n [] st = st"
| "followLoop normalizeHandle p cl json n (inp # rest) st =
     followLoop normalizeHandle p cl json n rest (followTarget normalizeHandle p cl json n inp st)"

definition reportOf :: "'w batch \<Rightarrow> batch_report" where
  "reportOf st = \<lparr>report_results = results st, report_failures = failures st\<rparr>"

text \<open>The action of the batch \<^verbatim>\<open>follow\<close> (lines 12-93): the exit code and the final
  state. When the credentials are missing the handler exits before \<^verbatim>\<open>results\<close> and
  \<^verbatim>\<open>failures\<close> are declared; the state returned there carries their initial values.\<close>

definition batchFollowCommand ::
  "(string \<Rightarrow> string option) \<Rightarrow> (string \<Rightarrow> string) \<Rightarrow> 'w client \<Rightarrow>
   twitter_cookies \<Rightarrow> string list \<Rightarrow> string list \<Rightarrow> bool \<Rightarrow> 'w \<Rightarrow> nat \<times> 'w batch" where
  "batchFollowCommand normalizeHandle p cl cookies warnings userIdOrHandles json w =
     (let st0 = \<lparr>events = printWarnings p warnings, world = w, results = [], failures = 0\<rparr> in
      if \<not> truthy (authToken cookies) \<or> \<not> truthy (ct0 cookies) then (1, emit (missingCredentials p) st0)
      else
        let st1 = followLoop normalizeHandle p cl json (length userIdOrHandles) userIdOrHandles st0;
            st2 = (if json then emit (ConsoleLogJSON (reportOf st1)) st1 else st1)
        in (if failures st2 > 0 then 1 else 0, st2))"

section \<open>A concrete environment for the worked examples\<close>

text \<open>
  The handlers above take the normaliser, the prefix function \<^verbatim>\<open>ctx.p\<close> and the client as
  parameters. The examples below run them in one concrete environment: a normaliser that
  strips one leading \<^verbatim>\<open>@\<close> and accepts 1 to 15 letters, digits and underscores; a
  client that knows the handle \<^verbatim>\<open>alice\<close> (user 999), refuses to follow user 404, reports
  the username \<^verbatim>\<open>bob\<close> with every successful mutation, and counts its requests in the
  world.
\<close>

definition examplePrefix :: "string \<Rightarrow> string" where
  "examplePrefix kind = ''['' @ kind @ ''] ''"

definition isHandleChar :: "char \<Rightarrow> bool" where
  "isHandleChar c =
     (c \<in> set ''abcdefghijklmnopqrstuvwxyzABCDEFGHIJKLMNOPQRSTUVWXYZ0123456789_'')"

definition exampleNormalizeHandle :: "string \<Rightarrow> string option" where
  "exampleNormalizeHandle s =
     (let h = (case s of [] \<Rightarrow> [] | c # rest \<Rightarrow> if c = CHR ''@'' then rest else s)
      in if h \<noteq> [] \<and> length h \<le> 15 \<and> list_all isHandleChar h then Some h else None)"

definition exampleLookup :: "string \<Rightarrow> nat \<Rightarrow> lookup_result \<times> nat" where
  "exampleLookup handle w =
     (if handle = ''alice'' then
        \<lparr>lookup_success = True, lookup_userId = Some ''999'',
         lookup_username = Some ''alice'', lookup_error = None\<rparr>
      else
        \<lparr>lookup_success = False, lookup_userId = None,
         lookup_username = None, lookup_error = Some ''User not found''\<rparr>,
      Suc w)"

definition exampleMutation :: "string \<Rightarrow> nat \<Rightarrow> mutation_result \<times> nat" where
  "exampleMutation uid w =
     (if uid = ''404'' then
        \<lparr>mutation_success = False, mutation_username = None,
         mutation_error = Some ''Not found''\<rparr>
      else
        \<lparr>mutation_success = True, mutation_username = Some ''bob'',
         mutation_error = None\<rparr>,
      Suc w)"

definition exampleClient :: "nat client" where
  "exampleClient =
     \<lparr>getUserIdByUsername = exampleLookup, followUser = exampleMutation,
      follow = exampleMutation, unfollow = exampleMutation\<rparr>"

definition goodCookies :: twitter_cookies where
  "goodCookies = \<lparr>authToken = Some ''token'', ct0 = Some ''csrf''\<rparr>"

definition noCookies :: twitter_cookies where
  "noCookies = \<lparr>authToken = None, ct0 = Some ''csrf''\<rparr>"

section \<open>Observations on a run\<close>

text \<open>Both cookies are present: the negation of the guard
  \<^verbatim>\<open>!cookies.authToken || !cookies.ct0\<close>.\<close>

definition hasCredentials :: "twitter_cookies \<Rightarrow> bool" where
  "hasCredentials cookies = (truthy (authToken cookies) \<and> truthy (ct0 cookies))"

text \<open>Classes of events: calls that reach the network; calls that resolve a handle;
  what is written to stdout; the timing skeleton of a batch (mutations and delays).\<close>

fun isNetworkCall :: "event \<Rightarrow> bool" where
  "isNetworkCall (GetUserIdByUsername h) = True"
| "isNetworkCall (FollowUser u) = True"
| "isNetworkCall (Follow u) = True"
| "isNetworkCall (Unfollow u) = True"
| "isNetworkCall e = False"

fun isStdout :: "event \<Rightarrow> bool" where
  "isStdout (ConsoleLog s) = True"
| "isStdout (ConsoleLogJSON r) = True"
| "isStdout e = False"

fun isProgressLine :: "event \<Rightarrow> bool" where
  "isProgressLine (ConsoleLog s) = True"
| "isProgressLine e = False"

fun isJSONDocument :: "event \<Rightarrow> bool" where
  "isJSONDocument (ConsoleLogJSON r) = True"
| "isJSONDocument e = False"

fun isPacing :: "event \<Rightarrow> bool" where
  "isPacing (FollowUser u) = True"
| "isPacing (SetTimeout ms) = True"
| "isPacing e = False"

fun isResolutionCall :: "event \<Rightarrow> bool" where
  "isResolutionCall (NormalizeHandle s) = True"
| "isResolutionCall (GetUserIdByUsername h) = True"
| "isResolutionCall e = False"

text \<open>The number of records with \<^verbatim>\<open>success: false\<close>.\<close>

definition failedRows :: "result_row list \<Rightarrow> nat" where
  "failedRows rows = length (filter (\<lambda>r. \<not> success r) rows)"

text \<open>The \<^verbatim>\<open>input\<close> field the batch command records for a target: the target itself when
  it is numeric or its handle is invalid, otherwise \<^verbatim>\<open>@\<close> and the normalised handle.\<close>

definition recordedInput :: "(string \<Rightarrow> string option) \<Rightarrow> string \<Rightarrow> string" where
  "recordedInput normalizeHandle inp =
     (if isUserId inp then inp
      else case normalizeHandle inp of
             None \<Rightarrow> inp
           | Some handle \<Rightarrow> if handle = [] then inp else ''@'' @ handle)"

text \<open>The user ids of the records that carry one: the targets whose resolution succeeded,
  in order. These are the targets for which \<^verbatim>\<open>client.followUser\<close> was called.\<close>

definition followedIds :: "result_row list \<Rightarrow> string list" where
  "followedIds rows = List.map_filter userId rows"

text \<open>The timing skeleton in which every mutation is followed by one 500 ms delay when the
  command was given more than one target, and by none otherwise.\<close>

definition delayedFollows :: "nat \<Rightarrow> string list \<Rightarrow> event list" where
  "delayedFollows n uids =
     concat (map (\<lambda>u. if n > 1 then [FollowUser u, SetTimeout 500] else [FollowUser u]) uids)"

text \<open>For a single-target command: the target resolves, and the one mutation succeeds.\<close>

definition targetResolves ::
  "(string \<Rightarrow> string option) \<Rightarrow> (string \<Rightarrow> string) \<Rightarrow> 'w client \<Rightarrow> string list \<Rightarrow>
   string \<Rightarrow> 'w \<Rightarrow> bool" where
  "targetResolves normalizeHandle p cl warnings usernameOrId w =
     (case resolveUserId normalizeHandle p cl usernameOrId
             \<lparr>events = printWarnings p warnings, world = w\<rparr> of
        (None, st1) \<Rightarrow> False
      | (Some r, st1) \<Rightarrow> True)"

definition mutationSucceeds ::
  "mutation \<Rightarrow> (string \<Rightarrow> string option) \<Rightarrow> (string \<Rightarrow> string) \<Rightarrow> 'w client \<Rightarrow>
   string list \<Rightarrow> string \<Rightarrow> 'w \<Rightarrow> bool" where
  "mutationSucceeds m normalizeHandle p cl warnings usernameOrId w =
     (case resolveUserId normalizeHandle p cl usernameOrId
             \<lparr>events = printWarnings p warnings, world = w\<rparr> of
        (None, st1) \<Rightarrow> False
      | (Some r, st1) \<Rightarrow>
          mutation_success (fst (callMutation m cl (resolved_userId r) (world st1))))"

section \<open>Basic facts about the state\<close>

lemma emit_simps [simp]:
  "events (emit e st) = events st @ [e]" "world (emit e st) = world st"
  by (simp_all add: emit_def)

lemma emit_batch_simps [simp]:
  "results (emit e st) = results st" "failures (emit e st) = failures st"
  by (simp_all add: emit_def)

lemma recordFailure_simps [simp]:
  "events (recordFailure row st) = events st" "world (recordFailure row st) = world st"
  "results (recordFailure row st) = results st @ [row]"
  "failures (recordFailure row st) = Suc (failures st)"
  by (simp_all add: recordFailure_def)

lemma unlessJSON_simps [simp]:
  "events (unlessJSON json e st) = (if json then events st else events st @ [e])"
  "world (unlessJSON json e st) = world st"
  "results (unlessJSON json e st) = results st"
  "failures (unlessJSON json e st) = failures st"
  by (simp_all add: unlessJSON_def)

lemma printWarnings_filters [simp]:
  "filter isNetworkCall (printWarnings p warnings) = []"
  "filter isResolutionCall (printWarnings p warnings) = []"
  "filter isStdout (printWarnings p warnings) = []"
  "filter isJSONDocument (printWarnings p warnings) = []"
  "filter isPacing (printWarnings p warnings) = []"
  by (simp_all add: printWarnings_def filter_empty_conv)

section \<open>The batch loop: records and failure counter\<close>

lemma followResolved_length:
  "length (results (followResolved p cl json n isId uid dn st)) = Suc (length (results st))"
  by (simp add: followResolved_def Let_def split: prod.splits)

lemma followResolved_inputs:
  "map input (results (followResolved p cl json n isId uid dn st)) = map input (results st) @ [dn]"
  by (simp add: followResolved_def Let_def split: prod.splits)

lemma followResolved_failures:
  "failures st = failedRows (results st) \<Longrightarrow>
   failures (followResolved p cl json n isId uid dn st)
     = failedRows (results (followResolved p cl json n isId uid dn st))"
  by (simp add: followResolved_def failedRows_def Let_def split: prod.splits)

lemma followTarget_length:
  "length (results (followTarget nh p cl json n inp st)) = Suc (length (results st))"
  by (simp add: followTarget_def followResolved_length Let_def split: prod.splits option.splits)

lemma followTarget_inputs:
  "map input (results (followTarget nh p cl json n inp st))
     = map input (results st) @ [recordedInput nh inp]"
  by (simp add: followTarget_def recordedInput_def followResolved_inputs Let_def
        split: prod.splits option.splits)

lemma followTarget_failures:
  "failures st = failedRows (results st) \<Longrightarrow>
   failures (followTarget nh p cl json n inp st)
     = failedRows (results (followTarget nh p cl json n inp st))"
  by (simp add: followTarget_def followResolved_failures Let_def failedRows_def
        split: prod.splits option.splits)

lemma followLoop_length:
  "length (results (followLoop nh p cl json n xs st)) = length (results st) + length xs"
  by (induction xs arbitrary: st) (simp_all add: followTarget_length)

lemma followLoop_inputs:
  "map input (results (followLoop nh p cl json n xs st))
     = map input (results st) @ map (recordedInput nh) xs"
  by (induction xs arbitrary: st) (simp_all add: followTarget_inputs)

lemma followLoop_failures:
  "failures st = failedRows (results st) \<Longrightarrow>
   failures (followLoop nh p cl json n xs st)
     = failedRows (results (followLoop nh p cl json n xs st))"
  by (induction xs arbitrary: st) (simp_all add: followTarget_failures)

text \<open>The command with credentials, unfolded once.\<close>

lemma batchFollowCommand_run:
  "hasCredentials cookies \<Longrightarrow>
   batchFollowCommand nh p cl cookies warnings xs json w =
     (let st1 = followLoop nh p cl json (length xs) xs
                  \<lparr>events = printWarnings p warnings, world = w, results = [], failures = 0\<rparr>;
          st2 = (if json then emit (ConsoleLogJSON (reportOf st1)) st1 else st1)
      in (if failures st2 > 0 then 1 else 0, st2))"
  by (simp add: batchFollowCommand_def hasCredentials_def)

lemma batchFollowCommand_abort:
  "\<not> hasCredentials cookies \<Longrightarrow>
   batchFollowCommand nh p cl cookies warnings xs json w =
     (1, \<lparr>events = printWarnings p warnings @ [missingCredentials p], world = w,
          results = [], failures = 0\<rparr>)"
  by (auto simp add: batchFollowCommand_def hasCredentials_def emit_def)

text \<open>
  C1. With valid credentials, the batch follow command leaves exactly one record per target
  reference in \<^verbatim>\<open>results\<close>, in input order (the \<^verbatim>\<open>input\<close> field of the i-th record is the
  one recorded for the i-th target), and \<^verbatim>\<open>failures\<close> is the number of records whose
  \<^verbatim>\<open>success\<close> field is false.
\<close>

theorem batch_results_reconcile:
  assumes "hasCredentials cookies"
  shows "length (results (snd (batchFollowCommand nh p cl cookies warnings xs json w))) = length xs
       \<and> map input (results (snd (batchFollowCommand nh p cl cookies warnings xs json w)))
           = map (recordedInput nh) xs
       \<and> failures (snd (batchFollowCommand nh p cl cookies warnings xs json w))
           = failedRows (results (snd (batchFollowCommand nh p cl cookies warnings xs json w)))"
proof -
  let ?st0 = "\<lparr>events = printWarnings p warnings, world = w, results = [], failures = 0\<rparr>"
  let ?st1 = "followLoop nh p cl json (length xs) xs ?st0"
  have res: "results (snd (batchFollowCommand nh p cl cookies warnings xs json w)) = results ?st1"
    and fl: "failures (snd (batchFollowCommand nh p cl cookies warnings xs json w)) = failures ?st1"
    using assms by (simp_all add: batchFollowCommand_run Let_def)
  have "failures ?st0 = failedRows (results ?st0)"
    by (simp add: failedRows_def)
  then have "failures ?st1 = failedRows (results ?st1)"
    by (rule followLoop_failures)
  moreover have "length (results ?st1) = length xs"
    by (simp add: followLoop_length)
  moreover have "map input (results ?st1) = map (recordedInput nh) xs"
    by (simp add: followLoop_inputs)
  ultimately show ?thesis
    by (simp add: res fl)
qed

text \<open>Three targets: an invalid handle, a user the platform refuses, a known handle.\<close>

theorem batch_results_reconcile_witness:
  "hasCredentials goodCookies
   \<and> length (results (snd (batchFollowCommand exampleNormalizeHandle examplePrefix exampleClient
        goodCookies [] [''!!!'', ''404'', ''alice''] True 0))) = 3
   \<and> map input (results (snd (batchFollowCommand exampleNormalizeHandle examplePrefix exampleClient
        goodCookies [] [''!!!'', ''404'', ''alice''] True 0))) = [''!!!'', ''404'', ''@alice'']
   \<and> failures (snd (batchFollowCommand exampleNormalizeHandle examplePrefix exampleClient
        goodCookies [] [''!!!'', ''404'', ''alice''] True 0)) = 2"
proof -
  have h: "hasCredentials goodCookies"
    by (simp add: hasCredentials_def goodCookies_def truthy_def)
  have f: "failedRows (results (snd (batchFollowCommand exampleNormalizeHandle examplePrefix
             exampleClient goodCookies [] [''!!!'', ''404'', ''alice''] True 0))) = 2"
    by code_simp
  have r: "map (recordedInput exampleNormalizeHandle) [''!!!'', ''404'', ''alice'']
             = [''!!!'', ''404'', ''@alice'']"
    by code_simp
  show ?thesis
    using h f r
      batch_results_reconcile [OF h, of exampleNormalizeHandle examplePrefix exampleClient "[]"
        "[''!!!'', ''404'', ''alice'']" True 0]
    by simp
qed

section \<open>Exit codes\<close>

lemma singleAction_abort:
  "\<not> hasCredentials cookies \<Longrightarrow>
   singleAction m nh p cl cookies warnings x w =
     (1, \<lparr>events = printWarnings p warnings @ [missingCredentials p], world = w\<rparr>)"
  by (auto simp add: singleAction_def hasCredentials_def emit_def)

lemma singleAction_exit:
  "fst (singleAction m nh p cl cookies warnings x w) =
     (if hasCredentials cookies \<and> targetResolves nh p cl warnings x w
         \<and> mutationSucceeds m nh p cl warnings x w then 0 else 1)"
  by (simp add: singleAction_def hasCredentials_def targetResolves_def mutationSucceeds_def
        Let_def split: prod.splits option.splits)

text \<open>
  C2 (as amended). Batch follow: with valid credentials the exit status is non-zero exactly
  when \<^verbatim>\<open>failures > 0\<close>, and it is 0 or 1; without them it is 1 although no target was
  processed and \<^verbatim>\<open>failures\<close> is 0. Single-target follow and unfollow: the exit status is 0
  exactly when the credentials are present, the target resolves and the one mutation
  succeeds, and 1 otherwise.
\<close>

theorem exit_code_reflects_outcome:
  "(hasCredentials cookies \<longrightarrow>
      (fst (batchFollowCommand nh p cl cookies warnings xs json w) \<noteq> 0)
        = (failures (snd (batchFollowCommand nh p cl cookies warnings xs json w)) > 0)
      \<and> fst (batchFollowCommand nh p cl cookies warnings xs json w) \<in> {0, 1})
   \<and> (\<not> hasCredentials cookies \<longrightarrow>
      fst (batchFollowCommand nh p cl cookies warnings xs json w) = 1
      \<and> failures (snd (batchFollowCommand nh p cl cookies warnings xs json w)) = 0
      \<and> results (snd (batchFollowCommand nh p cl cookies warnings xs json w)) = [])
   \<and> fst (followCommand nh p cl cookies warnings x w) =
        (if hasCredentials cookies \<and> targetResolves nh p cl warnings x w
            \<and> mutationSucceeds DoFollow nh p cl warnings x w then 0 else 1)
   \<and> fst (unfollowCommand nh p cl cookies warnings x w) =
        (if hasCredentials cookies \<and> targetResolves nh p cl warnings x w
            \<and> mutationSucceeds DoUnfollow nh p cl warnings x w then 0 else 1)"
proof -
  have batch_ok: "hasCredentials cookies \<Longrightarrow>
      (fst (batchFollowCommand nh p cl cookies warnings xs json w) \<noteq> 0)
        = (failures (snd (batchFollowCommand nh p cl cookies warnings xs json w)) > 0)
      \<and> fst (batchFollowCommand nh p cl cookies warnings xs json w) \<in> {0, 1}"
    by (simp add: batchFollowCommand_run Let_def)
  have batch_abort: "\<not> hasCredentials cookies \<Longrightarrow>
      fst (batchFollowCommand nh p cl cookies warnings xs json w) = 1
      \<and> failures (snd (batchFollowCommand nh p cl cookies warnings xs json w)) = 0
      \<and> results (snd (batchFollowCommand nh p cl cookies warnings xs json w)) = []"
    by (simp add: batchFollowCommand_abort)
  show ?thesis
    using batch_ok batch_abort
    by (simp add: followCommand_def unfollowCommand_def singleAction_exit)
qed

theorem exit_code_reflects_outcome_witness:
  "hasCredentials goodCookies
   \<and> fst (batchFollowCommand exampleNormalizeHandle examplePrefix exampleClient goodCookies []
        [''alice'', ''404''] False 0) = 1
   \<and> failures (snd (batchFollowCommand exampleNormalizeHandle examplePrefix exampleClient
        goodCookies [] [''alice'', ''404''] False 0)) = 1
   \<and> targetResolves exampleNormalizeHandle examplePrefix exampleClient [] ''@alice'' 0
   \<and> mutationSucceeds DoFollow exampleNormalizeHandle examplePrefix exampleClient [] ''@alice'' 0
   \<and> fst (followCommand exampleNormalizeHandle examplePrefix exampleClient goodCookies []
        ''@alice'' 0) = 0
   \<and> fst (unfollowCommand exampleNormalizeHandle examplePrefix exampleClient goodCookies []
        ''404'' 0) = 1"
proof -
  have h: "hasCredentials goodCookies"
    by (simp add: hasCredentials_def goodCookies_def truthy_def)
  have f: "failures (snd (batchFollowCommand exampleNormalizeHandle examplePrefix exampleClient
        goodCookies [] [''alice'', ''404''] False 0)) = 1"
    by code_simp
  have r: "targetResolves exampleNormalizeHandle examplePrefix exampleClient [] ''@alice'' 0"
    by code_simp
  have m: "mutationSucceeds DoFollow exampleNormalizeHandle examplePrefix exampleClient []
             ''@alice'' 0"
    by code_simp
  have u: "\<not> mutationSucceeds DoUnfollow exampleNormalizeHandle examplePrefix exampleClient []
             ''404'' 0"
    by code_simp
  show ?thesis
    using h f r m u
      exit_code_reflects_outcome [of goodCookies exampleNormalizeHandle examplePrefix
        exampleClient "[]" "[''alice'', ''404'']" False 0 "''@alice''"]
      exit_code_reflects_outcome [of goodCookies exampleNormalizeHandle examplePrefix
        exampleClient "[]" "[''alice'', ''404'']" False 0 "''404''"]
    by simp
qed

text \<open>Without credentials the batch command exits with status 1 although no target failed:
  nothing was processed, the failure counter is 0.\<close>

theorem exit_code_counterexample:
  "fst (batchFollowCommand exampleNormalizeHandle examplePrefix exampleClient noCookies []
          [''123456''] False 0) = 1
   \<and> failures (snd (batchFollowCommand exampleNormalizeHandle examplePrefix exampleClient
          noCookies [] [''123456''] False 0)) = 0
   \<and> events (snd (batchFollowCommand exampleNormalizeHandle examplePrefix exampleClient
          noCookies [] [''123456''] False 0))
        = [ConsoleError ''[err] Missing required credentials'']"
  by code_simp

section \<open>Missing credentials\<close>

text \<open>
  C6. In the single-target follow, the single-target unfollow and the batch follow, when
  \<^verbatim>\<open>authToken\<close> or \<^verbatim>\<open>ct0\<close> is missing the command prints the warnings and the
  missing-credentials error on stderr and exits with status 1; no target is processed, no
  collaborator is called and the world is untouched.
\<close>

theorem missing_credentials_abort:
  assumes "\<not> truthy (authToken cookies) \<or> \<not> truthy (ct0 cookies)"
  shows "followCommand nh p cl cookies warnings x w =
           (1, \<lparr>events = printWarnings p warnings @ [missingCredentials p], world = w\<rparr>)
       \<and> unfollowCommand nh p cl cookies warnings x w =
           (1, \<lparr>events = printWarnings p warnings @ [missingCredentials p], world = w\<rparr>)
       \<and> batchFollowCommand nh p cl cookies warnings xs json w =
           (1, \<lparr>events = printWarnings p warnings @ [missingCredentials p], world = w,
                results = [], failures = 0\<rparr>)
       \<and> filter isNetworkCall (printWarnings p warnings @ [missingCredentials p]) = []
       \<and> filter isResolutionCall (printWarnings p warnings @ [missingCredentials p]) = []"
proof -
  from assms have h: "\<not> hasCredentials cookies"
    by (auto simp add: hasCredentials_def)
  then show ?thesis
    by (simp add: followCommand_def unfollowCommand_def singleAction_abort
          batchFollowCommand_abort missingCredentials_def)
qed

theorem missing_credentials_abort_witness:
  "\<not> truthy (authToken noCookies)
   \<and> followCommand exampleNormalizeHandle examplePrefix exampleClient noCookies [''w''] ''alice'' 0
       = (1, \<lparr>events = [ConsoleError ''[warn] w'',
                        ConsoleError ''[err] Missing required credentials''], world = 0\<rparr>)
   \<and> unfollowCommand exampleNormalizeHandle examplePrefix exampleClient noCookies [''w''] ''alice'' 0
       = (1, \<lparr>events = [ConsoleError ''[warn] w'',
                        ConsoleError ''[err] Missing required credentials''], world = 0\<rparr>)
   \<and> batchFollowCommand exampleNormalizeHandle examplePrefix exampleClient noCookies [''w'']
        [''alice'', ''123456''] True 0
       = (1, \<lparr>events = [ConsoleError ''[warn] w'',
                        ConsoleError ''[err] Missing required credentials''], world = 0,
              results = [], failures = 0\<rparr>)"
proof -
  have h: "\<not> truthy (authToken noCookies) \<or> \<not> truthy (ct0 noCookies)"
    by (simp add: noCookies_def truthy_def)
  have e: "printWarnings examplePrefix [''w''] @ [missingCredentials examplePrefix]
            = [ConsoleError ''[warn] w'', ConsoleError ''[err] Missing required credentials'']"
    by (simp add: printWarnings_def missingCredentials_def examplePrefix_def)
  have n: "\<not> truthy (authToken noCookies)"
    by (simp add: noCookies_def truthy_def)
  show ?thesis
    using n e
      missing_credentials_abort [OF h, of exampleNormalizeHandle examplePrefix exampleClient
        "[''w'']" "''alice''" 0 "[''alice'', ''123456'']" True]
    by simp
qed

section \<open>The delay between follows\<close>

lemma followedIds_snoc:
  "followedIds (rows @ [row]) =
     followedIds rows @ (case userId row of None \<Rightarrow> [] | Some u \<Rightarrow> [u])"
  by (simp add: followedIds_def List.map_filter_def split: option.splits)

lemma delayedFollows_snoc:
  "delayedFollows n (uids @ [u]) =
     delayedFollows n uids @ (if n > 1 then [FollowUser u, SetTimeout 500] else [FollowUser u])"
  by (simp add: delayedFollows_def)

lemma followResolved_pacing:
  assumes "filter isPacing (events st) = delayedFollows n (followedIds (results st))"
  shows "filter isPacing (events (followResolved p cl json n isId uid dn st))
           = delayedFollows n (followedIds (results (followResolved p cl json n isId uid dn st)))"
  using assms
  by (simp add: followResolved_def Let_def followedIds_snoc delayedFollows_snoc
        split: prod.splits)

lemma followTarget_pacing:
  assumes "filter isPacing (events st) = delayedFollows n (followedIds (results st))"
  shows "filter isPacing (events (followTarget nh p cl json n inp st))
           = delayedFollows n (followedIds (results (followTarget nh p cl json n inp st)))"
  using assms
  by (simp add: followTarget_def Let_def followResolved_pacing followedIds_snoc
        split: prod.splits option.splits)

lemma followLoop_pacing:
  assumes "filter isPacing (events st) = delayedFollows n (followedIds (results st))"
  shows "filter isPacing (events (followLoop nh p cl json n xs st))
           = delayedFollows n (followedIds (results (followLoop nh p cl json n xs st)))"
  using assms
  by (induction xs arbitrary: st) (simp_all add: followTarget_pacing)

text \<open>
  C3 (as amended). In the batch follow command the 500 ms delay follows every call of
  \<^verbatim>\<open>client.followUser\<close>, the last one included, when more than one target reference was
  supplied, and there is no delay otherwise: the mutations and delays of a run, in order,
  are the sequence of the followed user ids, each followed by one delay iff the input list
  has more than one entry. A target whose resolution failed has neither.
\<close>

theorem delay_after_each_follow:
  "filter isPacing (events (snd (batchFollowCommand nh p cl cookies warnings xs json w)))
     = delayedFollows (length xs)
         (followedIds (results (snd (batchFollowCommand nh p cl cookies warnings xs json w))))"
proof (cases "hasCredentials cookies")
  case True
  let ?st0 = "\<lparr>events = printWarnings p warnings, world = w, results = [], failures = 0\<rparr>"
  have "filter isPacing (events ?st0) = delayedFollows (length xs) (followedIds (results ?st0))"
    by (simp add: delayedFollows_def followedIds_def List.map_filter_def)
  then have "filter isPacing (events (followLoop nh p cl json (length xs) xs ?st0))
      = delayedFollows (length xs)
          (followedIds (results (followLoop nh p cl json (length xs) xs ?st0)))"
    by (rule followLoop_pacing)
  with True show ?thesis
    by (cases json) (simp_all add: batchFollowCommand_run Let_def)
next
  case False
  then show ?thesis
    by (simp add: batchFollowCommand_abort missingCredentials_def delayedFollows_def
          followedIds_def List.map_filter_def)
qed

theorem delay_after_each_follow_witness:
  "filter isPacing (events (snd (batchFollowCommand exampleNormalizeHandle examplePrefix
       exampleClient goodCookies [] [''alice'', ''!!!'', ''404''] False 0)))
     = [FollowUser ''999'', SetTimeout 500, FollowUser ''404'', SetTimeout 500]
   \<and> filter isPacing (events (snd (batchFollowCommand exampleNormalizeHandle examplePrefix
       exampleClient goodCookies [] [''alice''] False 0)))
     = [FollowUser ''999'']"
proof -
  have a: "delayedFollows (length [''alice'', ''!!!'', ''404''])
        (followedIds (results (snd (batchFollowCommand exampleNormalizeHandle examplePrefix
           exampleClient goodCookies [] [''alice'', ''!!!'', ''404''] False 0))))
      = [FollowUser ''999'', SetTimeout 500, FollowUser ''404'', SetTimeout 500]"
    by code_simp
  have b: "delayedFollows (length [''alice''])
        (followedIds (results (snd (batchFollowCommand exampleNormalizeHandle examplePrefix
           exampleClient goodCookies [] [''alice''] False 0))))
      = [FollowUser ''999'']"
    by code_simp
  show ?thesis
    using a b
      delay_after_each_follow [of exampleNormalizeHandle examplePrefix exampleClient goodCookies
        "[]" "[''alice'', ''!!!'', ''404'']" False 0]
      delay_after_each_follow [of exampleNormalizeHandle examplePrefix exampleClient goodCookies
        "[]" "[''alice'']" False 0]
    by simp
qed

text \<open>Two targets, both followed: a delay also follows the last one. An invalid handle and
  then a numeric id: no delay separates the two targets.\<close>

theorem delay_between_targets_counterexample:
  "events (snd (batchFollowCommand exampleNormalizeHandle examplePrefix exampleClient
       goodCookies [] [''1'', ''2''] False 0))
     = [FollowUser ''1'', ConsoleLog ''[ok] Followed 1'', SetTimeout 500,
        FollowUser ''2'', ConsoleLog ''[ok] Followed 2'', SetTimeout 500]
   \<and> events (snd (batchFollowCommand exampleNormalizeHandle examplePrefix exampleClient
       goodCookies [] [''!!!'', ''2''] False 0))
     = [NormalizeHandle ''!!!'', ConsoleError ''[err] Invalid handle: !!!'',
        FollowUser ''2'', ConsoleLog ''[ok] Followed 2'', SetTimeout 500]"
  by code_simp

section \<open>Output modes\<close>

lemma followResolved_stdout_json:
  "filter isStdout (events (followResolved p cl True n isId uid dn st))
     = filter isStdout (events st)"
  by (simp add: followResolved_def Let_def split: prod.splits)

lemma followTarget_stdout_json:
  "filter isStdout (events (followTarget nh p cl True n inp st)) = filter isStdout (events st)"
  by (simp add: followTarget_def Let_def followResolved_stdout_json
        split: prod.splits option.splits)

lemma followLoop_stdout_json:
  "filter isStdout (events (followLoop nh p cl True n xs st)) = filter isStdout (events st)"
  by (induction xs arbitrary: st) (simp_all add: followTarget_stdout_json)

lemma followResolved_documents:
  "filter isJSONDocument (events (followResolved p cl json n isId uid dn st))
     = filter isJSONDocument (events st)"
  by (simp add: followResolved_def Let_def split: prod.splits)

lemma followTarget_documents:
  "filter isJSONDocument (events (followTarget nh p cl json n inp st))
     = filter isJSONDocument (events st)"
  by (simp add: followTarget_def Let_def followResolved_documents
        split: prod.splits option.splits)

lemma followLoop_documents:
  "filter isJSONDocument (events (followLoop nh p cl json n xs st))
     = filter isJSONDocument (events st)"
  by (induction xs arbitrary: st) (simp_all add: followTarget_documents)

lemma reportOf_emit [simp]: "reportOf (emit e st) = reportOf st"
  by (simp add: reportOf_def)

text \<open>
  C7. Batch follow with \<^verbatim>\<open>--json\<close>: nothing but the one aggregate JSON document is
  written to stdout, so no progress line is (and with missing credentials stdout stays
  empty). Without \<^verbatim>\<open>--json\<close>: the aggregate JSON document is never emitted.
\<close>

theorem output_modes_exclusive:
  "filter isStdout (events (snd (batchFollowCommand nh p cl cookies warnings xs True w)))
     = (if hasCredentials cookies
        then [ConsoleLogJSON
                (reportOf (snd (batchFollowCommand nh p cl cookies warnings xs True w)))]
        else [])
   \<and> filter isProgressLine
        (events (snd (batchFollowCommand nh p cl cookies warnings xs True w))) = []
   \<and> filter isJSONDocument
        (events (snd (batchFollowCommand nh p cl cookies warnings xs False w))) = []"
proof -
  let ?B = "batchFollowCommand nh p cl cookies warnings xs True w"
  have out: "filter isStdout (events (snd ?B))
     = (if hasCredentials cookies then [ConsoleLogJSON (reportOf (snd ?B))] else [])"
    by (cases "hasCredentials cookies")
       (simp_all add: batchFollowCommand_run batchFollowCommand_abort Let_def
          followLoop_stdout_json missingCredentials_def)
  have sub: "filter isProgressLine es = filter isProgressLine (filter isStdout es)" for es
    by (induction es) (auto elim: isProgressLine.elims)
  have prog: "filter isProgressLine (events (snd ?B)) = []"
    by (subst sub) (simp add: out)
  have doc: "filter isJSONDocument
        (events (snd (batchFollowCommand nh p cl cookies warnings xs False w))) = []"
    by (cases "hasCredentials cookies")
       (simp_all add: batchFollowCommand_run batchFollowCommand_abort Let_def
          followLoop_documents missingCredentials_def)
  show ?thesis
    using out prog doc by simp
qed

theorem output_modes_exclusive_witness:
  "filter isStdout (events (snd (batchFollowCommand exampleNormalizeHandle examplePrefix
       exampleClient goodCookies [''w''] [''alice'', ''404''] True 0)))
     = [ConsoleLogJSON
          \<lparr>report_results =
             [\<lparr>input = ''@alice'', userId = Some ''999'', success = True, error = None\<rparr>,
              \<lparr>input = ''404'', userId = Some ''404'', success = False,
               error = Some ''Not found''\<rparr>],
           report_failures = 1\<rparr>]
   \<and> filter isJSONDocument (events (snd (batchFollowCommand exampleNormalizeHandle
       examplePrefix exampleClient goodCookies [''w''] [''alice'', ''404''] False 0))) = []"
proof -
  have h: "hasCredentials goodCookies"
    by (simp add: hasCredentials_def goodCookies_def truthy_def)
  have r: "reportOf (snd (batchFollowCommand exampleNormalizeHandle examplePrefix
       exampleClient goodCookies [''w''] [''alice'', ''404''] True 0))
     = \<lparr>report_results =
             [\<lparr>input = ''@alice'', userId = Some ''999'', success = True, error = None\<rparr>,
              \<lparr>input = ''404'', userId = Some ''404'', success = False,
               error = Some ''Not found''\<rparr>],
           report_failures = 1\<rparr>"
    by code_simp
  show ?thesis
    using h r
      output_modes_exclusive [of exampleNormalizeHandle examplePrefix exampleClient goodCookies
        "[''w'']" "[''alice'', ''404'']" 0]
    by simp
qed

section \<open>The report precedes the exit\<close>

text \<open>
  C10 (as amended). Batch follow with \<^verbatim>\<open>--json\<close> and with both credentials present: the
  aggregate JSON document is the last thing the command does before it ends, whatever the
  exit status, and it is printed exactly once; it carries the final \<^verbatim>\<open>results\<close> and
  \<^verbatim>\<open>failures\<close>. This includes the runs in which every target failed.
\<close>

theorem report_before_exit:
  assumes "hasCredentials cookies"
  shows "events (snd (batchFollowCommand nh p cl cookies warnings xs True w)) \<noteq> []
       \<and> last (events (snd (batchFollowCommand nh p cl cookies warnings xs True w)))
           = ConsoleLogJSON
               \<lparr>report_results =
                  results (snd (batchFollowCommand nh p cl cookies warnings xs True w)),
                report_failures =
                  failures (snd (batchFollowCommand nh p cl cookies warnings xs True w))\<rparr>
       \<and> length (filter isJSONDocument
            (events (snd (batchFollowCommand nh p cl cookies warnings xs True w)))) = 1"
  using assms
  by (simp add: batchFollowCommand_run Let_def followLoop_documents reportOf_def)

theorem report_before_exit_witness:
  "hasCredentials goodCookies
   \<and> fst (batchFollowCommand exampleNormalizeHandle examplePrefix exampleClient goodCookies []
        [''!!!'', ''404''] True 0) = 1
   \<and> last (events (snd (batchFollowCommand exampleNormalizeHandle examplePrefix exampleClient
        goodCookies [] [''!!!'', ''404''] True 0)))
       = ConsoleLogJSON
          \<lparr>report_results =
             [\<lparr>input = ''!!!'', userId = None, success = False,
               error = Some ''Invalid handle format''\<rparr>,
              \<lparr>input = ''404'', userId = Some ''404'', success = False,
               error = Some ''Not found''\<rparr>],
           report_failures = 2\<rparr>"
proof -
  have h: "hasCredentials goodCookies"
    by (simp add: hasCredentials_def goodCookies_def truthy_def)
  have x: "fst (batchFollowCommand exampleNormalizeHandle examplePrefix exampleClient goodCookies []
        [''!!!'', ''404''] True 0) = 1"
    by code_simp
  have r: "results (snd (batchFollowCommand exampleNormalizeHandle examplePrefix exampleClient
        goodCookies [] [''!!!'', ''404''] True 0))
      = [\<lparr>input = ''!!!'', userId = None, success = False,
               error = Some ''Invalid handle format''\<rparr>,
              \<lparr>input = ''404'', userId = Some ''404'', success = False,
               error = Some ''Not found''\<rparr>]"
    by code_simp
  have f: "failures (snd (batchFollowCommand exampleNormalizeHandle examplePrefix exampleClient
        goodCookies [] [''!!!'', ''404''] True 0)) = 2"
    by code_simp
  show ?thesis
    using h x r f
      report_before_exit [OF h, of exampleNormalizeHandle examplePrefix exampleClient "[]"
        "[''!!!'', ''404'']" 0]
    by simp
qed

text \<open>With \<^verbatim>\<open>--json\<close> but without credentials the command exits with status 1 and has
  printed no JSON document.\<close>

theorem report_before_exit_counterexample:
  "fst (batchFollowCommand exampleNormalizeHandle examplePrefix exampleClient noCookies []
          [''123456''] True 0) = 1
   \<and> events (snd (batchFollowCommand exampleNormalizeHandle examplePrefix exampleClient
          noCookies [] [''123456''] True 0))
        = [ConsoleError ''[err] Missing required credentials'']"
  by code_simp

section \<open>Numeric ids\<close>

lemma followResolved_network:
  "filter isNetworkCall (events (followResolved p cl json n isId uid dn st))
     = filter isNetworkCall (events st) @ [FollowUser uid]"
  by (simp add: followResolved_def Let_def split: prod.splits)

lemma followResolved_resolution:
  "filter isResolutionCall (events (followResolved p cl json n isId uid dn st))
     = filter isResolutionCall (events st)"
  by (simp add: followResolved_def Let_def split: prod.splits)

lemma followResolved_userIds:
  "map userId (results (followResolved p cl json n isId uid dn st))
     = map userId (results st) @ [Some uid]"
  by (simp add: followResolved_def Let_def split: prod.splits)

lemma resolveUserId_numeric:
  "isUserId x \<Longrightarrow>
   resolveUserId nh p cl x st = (Some \<lparr>resolved_userId = x, resolved_username = None\<rparr>, st)"
  by (simp add: resolveUserId_def)

lemma singleAction_numeric:
  assumes "isUserId x" and "hasCredentials cookies"
  shows "filter (\<lambda>e. isNetworkCall e \<or> isResolutionCall e)
           (events (snd (singleAction m nh p cl cookies warnings x w))) = [mutationEvent m x]"
proof -
  have w: "filter (\<lambda>e. isNetworkCall e \<or> isResolutionCall e) (printWarnings p warnings) = []"
    by (simp add: printWarnings_def filter_empty_conv)
  have e: "isNetworkCall (mutationEvent m x)"
    by (cases m) simp_all
  show ?thesis
    using assms w e
    by (simp add: singleAction_def hasCredentials_def resolveUserId_numeric Let_def
          split: prod.splits)
qed

text \<open>
  C4. For an input of one or more decimal digits and nothing else, the resolver of the
  single-target commands returns the input itself as the user id, leaving trace and world
  as they were (no normalisation, no lookup); the commands then call the mutation on that
  very string and make no other call. The batch command calls \<^verbatim>\<open>followUser\<close> on the input
  itself, records it as the \<^verbatim>\<open>userId\<close>, and neither normalises nor looks anything up.
\<close>

theorem numeric_id_used_directly:
  assumes "isUserId x"
  shows "resolveUserId nh p cl x st
           = (Some \<lparr>resolved_userId = x, resolved_username = None\<rparr>, st)
       \<and> (hasCredentials cookies \<longrightarrow>
            filter (\<lambda>e. isNetworkCall e \<or> isResolutionCall e)
              (events (snd (followCommand nh p cl cookies warnings x w))) = [Follow x]
          \<and> filter (\<lambda>e. isNetworkCall e \<or> isResolutionCall e)
              (events (snd (unfollowCommand nh p cl cookies warnings x w))) = [Unfollow x])
       \<and> filter isResolutionCall (events (followTarget nh p cl json n x bst))
           = filter isResolutionCall (events bst)
       \<and> filter isNetworkCall (events (followTarget nh p cl json n x bst))
           = filter isNetworkCall (events bst) @ [FollowUser x]
       \<and> map userId (results (followTarget nh p cl json n x bst))
           = map userId (results bst) @ [Some x]"
proof -
  have t: "followTarget nh p cl json n x bst = followResolved p cl json n True x x bst"
    using assms by (simp add: followTarget_def)
  have s: "hasCredentials cookies \<Longrightarrow>
            filter (\<lambda>e. isNetworkCall e \<or> isResolutionCall e)
              (events (snd (followCommand nh p cl cookies warnings x w))) = [Follow x]
          \<and> filter (\<lambda>e. isNetworkCall e \<or> isResolutionCall e)
              (events (snd (unfollowCommand nh p cl cookies warnings x w))) = [Unfollow x]"
    using assms singleAction_numeric [of x cookies _ nh p cl warnings w]
    by (simp add: followCommand_def unfollowCommand_def)
  show ?thesis
    using s
    by (simp add: t resolveUserId_numeric [OF assms] followResolved_network
          followResolved_resolution followResolved_userIds)
qed

theorem numeric_id_used_directly_witness:
  "isUserId ''123456'' \<and> hasCredentials goodCookies
   \<and> resolveUserId exampleNormalizeHandle examplePrefix exampleClient ''123456''
        \<lparr>events = [], world = 0\<rparr>
       = (Some \<lparr>resolved_userId = ''123456'', resolved_username = None\<rparr>,
          \<lparr>events = [], world = 0\<rparr>)
   \<and> filter (\<lambda>e. isNetworkCall e \<or> isResolutionCall e)
        (events (snd (followCommand exampleNormalizeHandle examplePrefix exampleClient
           goodCookies [] ''123456'' 0))) = [Follow ''123456'']
   \<and> filter isNetworkCall (events (followTarget exampleNormalizeHandle examplePrefix
        exampleClient False 1 ''123456''
        \<lparr>events = [], world = 0, results = [], failures = 0\<rparr>)) = [FollowUser ''123456'']
   \<and> map userId (results (followTarget exampleNormalizeHandle examplePrefix
        exampleClient False 1 ''123456''
        \<lparr>events = [], world = 0, results = [], failures = 0\<rparr>)) = [Some ''123456'']"
proof -
  have d: "isUserId ''123456''"
    by (simp add: isUserId_def isDigit_def)
  have h: "hasCredentials goodCookies"
    by (simp add: hasCredentials_def goodCookies_def truthy_def)
  show ?thesis
    using d h
      numeric_id_used_directly [OF d, of exampleNormalizeHandle examplePrefix exampleClient
        "\<lparr>events = [], world = 0\<rparr>" goodCookies "[]" 0 False 1
        "\<lparr>events = [], world = 0, results = [], failures = 0\<rparr>"]
    by simp
qed

section \<open>Handles\<close>

lemma resolveUserId_first_event:
  "\<not> isUserId x \<Longrightarrow>
   take (Suc (length (events st))) (events (snd (resolveUserId nh p cl x st)))
     = events st @ [NormalizeHandle x]"
  by (simp add: resolveUserId_def Let_def split: prod.splits option.splits)

lemma followResolved_prefix:
  "length es < length (events st) \<Longrightarrow> take (Suc (length es)) (events st) = es @ [e] \<Longrightarrow>
   take (Suc (length es)) (events (followResolved p cl json n isId uid dn st)) = es @ [e]"
  by (simp add: followResolved_def Let_def split: prod.splits)

lemma followTarget_first_event:
  "\<not> isUserId x \<Longrightarrow>
   take (Suc (length (events st))) (events (followTarget nh p cl json n x st))
     = events st @ [NormalizeHandle x]"
  by (simp add: followTarget_def Let_def followResolved_prefix split: prod.splits option.splits)

lemma resolveUserId_invalid:
  "\<not> isUserId x \<Longrightarrow> nh x = None \<Longrightarrow>
   resolveUserId nh p cl x st =
     (None, st\<lparr>events := events st @
        [NormalizeHandle x, ConsoleError (p ''err'' @ ''Invalid username: '' @ x)]\<rparr>)"
  by (simp add: resolveUserId_def Let_def emit_def)

lemma followTarget_invalid:
  "\<not> isUserId x \<Longrightarrow> nh x = None \<Longrightarrow>
   followTarget nh p cl json n x st =
     st\<lparr>events := events st @ NormalizeHandle x #
          (if json then [] else [ConsoleError (p ''err'' @ ''Invalid handle: '' @ x)]),
        results := results st @
          [\<lparr>input = x, userId = None, success = False, error = Some ''Invalid handle format''\<rparr>],
        failures := failures st + 1\<rparr>"
  by (simp add: followTarget_def Let_def emit_def unlessJSON_def recordFailure_def)

lemma singleAction_invalid:
  "\<not> isUserId x \<Longrightarrow> nh x = None \<Longrightarrow> hasCredentials cookies \<Longrightarrow>
   singleAction m nh p cl cookies warnings x w =
     (1, \<lparr>events = printWarnings p warnings @
            [NormalizeHandle x, ConsoleError (p ''err'' @ ''Invalid username: '' @ x)],
          world = w\<rparr>)"
  by (simp add: singleAction_def hasCredentials_def resolveUserId_invalid Let_def)

text \<open>
  C5. For an input that is not numeric, the first thing the resolver does (in the
  single-target commands and in the batch command) is to call the normaliser, before any
  network call. If the normaliser returns \<^verbatim>\<open>null\<close>, the target is a failure: the
  single-target resolver returns \<^verbatim>\<open>null\<close> after an invalid-username error and the command
  exits with status 1; the batch command records \<^verbatim>\<open>success: false\<close> with the error
  \<^verbatim>\<open>Invalid handle format\<close> and counts one failure. In both, nothing else happens for
  that target: no lookup, no mutation, the world is unchanged.
\<close>

theorem invalid_handle_never_reaches_network:
  assumes "\<not> isUserId x"
  shows "take (Suc (length (events st))) (events (snd (resolveUserId nh p cl x st)))
           = events st @ [NormalizeHandle x]
       \<and> take (Suc (length (events bst))) (events (followTarget nh p cl json n x bst))
           = events bst @ [NormalizeHandle x]
       \<and> (nh x = None \<longrightarrow>
            resolveUserId nh p cl x st =
              (None, st\<lparr>events := events st @
                 [NormalizeHandle x, ConsoleError (p ''err'' @ ''Invalid username: '' @ x)]\<rparr>)
          \<and> followTarget nh p cl json n x bst =
              bst\<lparr>events := events bst @ NormalizeHandle x #
                    (if json then [] else [ConsoleError (p ''err'' @ ''Invalid handle: '' @ x)]),
                  results := results bst @
                    [\<lparr>input = x, userId = None, success = False,
                      error = Some ''Invalid handle format''\<rparr>],
                  failures := failures bst + 1\<rparr>
          \<and> (hasCredentials cookies \<longrightarrow>
               followCommand nh p cl cookies warnings x w =
                 (1, \<lparr>events = printWarnings p warnings @
                        [NormalizeHandle x, ConsoleError (p ''err'' @ ''Invalid username: '' @ x)],
                      world = w\<rparr>)
             \<and> unfollowCommand nh p cl cookies warnings x w =
                 (1, \<lparr>events = printWarnings p warnings @
                        [NormalizeHandle x, ConsoleError (p ''err'' @ ''Invalid username: '' @ x)],
                      world = w\<rparr>)))"
  using assms
  by (simp add: resolveUserId_first_event followTarget_first_event resolveUserId_invalid
        followTarget_invalid singleAction_invalid followCommand_def unfollowCommand_def)

theorem invalid_handle_never_reaches_network_witness:
  "\<not> isUserId ''!!!'' \<and> exampleNormalizeHandle ''!!!'' = None \<and> hasCredentials goodCookies
   \<and> followTarget exampleNormalizeHandle examplePrefix exampleClient True 2 ''!!!''
        \<lparr>events = [], world = 0, results = [], failures = 0\<rparr>
       = \<lparr>events = [NormalizeHandle ''!!!''], world = 0,
          results = [\<lparr>input = ''!!!'', userId = None, success = False,
                      error = Some ''Invalid handle format''\<rparr>],
          failures = 1\<rparr>
   \<and> followCommand exampleNormalizeHandle examplePrefix exampleClient goodCookies [] ''!!!'' 0
       = (1, \<lparr>events = [NormalizeHandle ''!!!'', ConsoleError ''[err] Invalid username: !!!''],
              world = 0\<rparr>)"
proof -
  have d: "\<not> isUserId ''!!!''"
    by (simp add: isUserId_def isDigit_def)
  have i: "exampleNormalizeHandle ''!!!'' = None"
    by (simp add: exampleNormalizeHandle_def isHandleChar_def)
  have h: "hasCredentials goodCookies"
    by (simp add: hasCredentials_def goodCookies_def truthy_def)
  show ?thesis
    using d i h
      invalid_handle_never_reaches_network [OF d, of "\<lparr>events = [], world = 0\<rparr>"
        exampleNormalizeHandle examplePrefix exampleClient
        "\<lparr>events = [], world = 0, results = [], failures = 0\<rparr>" True 2 goodCookies "[]" 0]
    by (simp add: printWarnings_def examplePrefix_def)
qed

section \<open>The name on the success line\<close>

lemma singleAction_success_line:
  assumes "hasCredentials cookies"
    and "resolveUserId nh p cl x \<lparr>events = printWarnings p warnings, world = w\<rparr> = (Some r, st1)"
    and "callMutation m cl (resolved_userId r) (world st1) = (result, w')"
    and "mutation_success result"
    and "mutation_username result = Some u" and "u \<noteq> []"
  shows "singleAction m nh p cl cookies warnings x w =
           (0, \<lparr>events = events st1 @ [mutationEvent m (resolved_userId r),
                   ConsoleLog (p ''ok'' @ successText m @ ''@'' @ u)],
                world = w'\<rparr>)"
  using assms
  by (simp add: singleAction_def hasCredentials_def Let_def atName_def emit_def)

lemma followTarget_numeric_success_line:
  assumes "isUserId x" and "mutation_success (fst (followUser cl x (world st)))"
  shows "events (followTarget nh p cl False n x st) =
           events st @ [FollowUser x, ConsoleLog (p ''ok'' @ ''Followed '' @ x)]
             @ (if n > 1 then [SetTimeout 500] else [])"
  using assms
  by (simp add: followTarget_def followResolved_def Let_def case_prod_beta)

lemma followTarget_handle_success_line:
  assumes "\<not> isUserId x" and "nh x = Some handle" and "handle \<noteq> []"
    and "getUserIdByUsername cl handle (world st) = (lookupResult, w1)"
    and "lookup_success lookupResult"
    and "lookup_userId lookupResult = Some uid" and "uid \<noteq> []"
    and "mutation_success (fst (followUser cl uid w1))"
  shows "events (followTarget nh p cl False n x st) =
           events st @ [NormalizeHandle x, GetUserIdByUsername handle, FollowUser uid,
             ConsoleLog (p ''ok'' @ ''Followed @'' @ handle @ '' (ID: '' @ uid @ '')'')]
             @ (if n > 1 then [SetTimeout 500] else [])"
  using assms
  by (simp add: followTarget_def followResolved_def Let_def case_prod_beta)

text \<open>
  C8 (as amended). In the single-target follow and unfollow commands, a successful mutation
  whose result carries a (non-empty) username prints the success line with that username,
  as \<^verbatim>\<open>@username\<close>, whatever name or id was supplied. The batch follow command does not
  read the username of the mutation's result: its success line shows the numeric id as
  given, or \<^verbatim>\<open>@\<close> and the normalised handle followed by the resolved id.
\<close>

theorem success_line_name:
  "(hasCredentials cookies
      \<and> resolveUserId nh p cl x \<lparr>events = printWarnings p warnings, world = w\<rparr> = (Some r, st1)
      \<and> follow cl (resolved_userId r) (world st1) = (result, w')
      \<and> mutation_success result \<and> mutation_username result = Some u \<and> u \<noteq> [] \<longrightarrow>
    followCommand nh p cl cookies warnings x w =
      (0, \<lparr>events = events st1 @ [Follow (resolved_userId r),
              ConsoleLog (p ''ok'' @ ''Now following @'' @ u)],
           world = w'\<rparr>))
   \<and> (hasCredentials cookies
      \<and> resolveUserId nh p cl x \<lparr>events = printWarnings p warnings, world = w\<rparr> = (Some r, st1)
      \<and> unfollow cl (resolved_userId r) (world st1) = (result, w')
      \<and> mutation_success result \<and> mutation_username result = Some u \<and> u \<noteq> [] \<longrightarrow>
    unfollowCommand nh p cl cookies warnings x w =
      (0, \<lparr>events = events st1 @ [Unfollow (resolved_userId r),
              ConsoleLog (p ''ok'' @ ''Unfollowed @'' @ u)],
           world = w'\<rparr>))
   \<and> (isUserId x \<and> mutation_success (fst (followUser cl x (world bst))) \<longrightarrow>
    events (followTarget nh p cl False n x bst) =
      events bst @ [FollowUser x, ConsoleLog (p ''ok'' @ ''Followed '' @ x)]
        @ (if n > 1 then [SetTimeout 500] else []))
   \<and> (\<not> isUserId x \<and> nh x = Some handle \<and> handle \<noteq> []
      \<and> getUserIdByUsername cl handle (world bst) = (lookupResult, w1)
      \<and> lookup_success lookupResult \<and> lookup_userId lookupResult = Some uid \<and> uid \<noteq> []
      \<and> mutation_success (fst (followUser cl uid w1)) \<longrightarrow>
    events (followTarget nh p cl False n x bst) =
      events bst @ [NormalizeHandle x, GetUserIdByUsername handle, FollowUser uid,
        ConsoleLog (p ''ok'' @ ''Followed @'' @ handle @ '' (ID: '' @ uid @ '')'')]
        @ (if n > 1 then [SetTimeout 500] else []))"
proof -
  have a: "hasCredentials cookies
      \<and> resolveUserId nh p cl x \<lparr>events = printWarnings p warnings, world = w\<rparr> = (Some r, st1)
      \<and> callMutation m cl (resolved_userId r) (world st1) = (result, w')
      \<and> mutation_success result \<and> mutation_username result = Some u \<and> u \<noteq> [] \<Longrightarrow>
    singleAction m nh p cl cookies warnings x w =
      (0, \<lparr>events = events st1 @ [mutationEvent m (resolved_userId r),
              ConsoleLog (p ''ok'' @ successText m @ ''@'' @ u)],
           world = w'\<rparr>)" for m
    using singleAction_success_line [of cookies nh p cl x warnings w r st1 m result w' u]
    by blast
  show ?thesis
    using a [of DoFollow] a [of DoUnfollow]
      followTarget_numeric_success_line [of x cl bst nh p n]
      followTarget_handle_success_line [of x nh handle cl bst lookupResult w1 uid p n]
    by (simp add: followCommand_def unfollowCommand_def)
qed

theorem success_line_name_witness:
  "followCommand exampleNormalizeHandle examplePrefix exampleClient goodCookies [] ''@alice'' 0
     = (0, \<lparr>events = [NormalizeHandle ''@alice'', GetUserIdByUsername ''alice'', Follow ''999'',
                      ConsoleLog ''[ok] Now following @bob''], world = 2\<rparr>)
   \<and> unfollowCommand exampleNormalizeHandle examplePrefix exampleClient goodCookies [] ''@alice'' 0
     = (0, \<lparr>events = [NormalizeHandle ''@alice'', GetUserIdByUsername ''alice'', Unfollow ''999'',
                      ConsoleLog ''[ok] Unfollowed @bob''], world = 2\<rparr>)
   \<and> events (followTarget exampleNormalizeHandle examplePrefix exampleClient False 1 ''@alice''
        \<lparr>events = [], world = 0, results = [], failures = 0\<rparr>)
     = [NormalizeHandle ''@alice'', GetUserIdByUsername ''alice'', FollowUser ''999'',
        ConsoleLog ''[ok] Followed @alice (ID: 999)'']"
proof -
  let ?r = "\<lparr>resolved_userId = ''999'', resolved_username = Some ''alice''\<rparr>"
  let ?st1 = "\<lparr>events = [NormalizeHandle ''@alice'', GetUserIdByUsername ''alice''],
               world = Suc 0\<rparr>"
  let ?res = "\<lparr>mutation_success = True, mutation_username = Some ''bob'',
               mutation_error = None\<rparr>"
  let ?lr = "\<lparr>lookup_success = True, lookup_userId = Some ''999'',
         lookup_username = Some ''alice'', lookup_error = None\<rparr>"
  have h: "hasCredentials goodCookies"
    by (simp add: hasCredentials_def goodCookies_def truthy_def)
  have r: "resolveUserId exampleNormalizeHandle examplePrefix exampleClient ''@alice''
             \<lparr>events = printWarnings examplePrefix [], world = 0\<rparr> = (Some ?r, ?st1)"
    by code_simp
  have f: "follow exampleClient (resolved_userId ?r) (world ?st1) = (?res, 2)"
    by code_simp
  have u: "unfollow exampleClient (resolved_userId ?r) (world ?st1) = (?res, 2)"
    by code_simp
  have d: "\<not> isUserId ''@alice''"
    by (simp add: isUserId_def isDigit_def)
  have n: "exampleNormalizeHandle ''@alice'' = Some ''alice''"
    by (simp add: exampleNormalizeHandle_def isHandleChar_def)
  have l: "getUserIdByUsername exampleClient ''alice'' 0 = (?lr, 1)"
    by (simp add: exampleClient_def exampleLookup_def)
  have m: "mutation_success (fst (followUser exampleClient ''999'' 1))"
    by (simp add: exampleClient_def exampleMutation_def)
  show ?thesis
    using h r f u d n l m
      success_line_name [of goodCookies exampleNormalizeHandle examplePrefix exampleClient
        "''@alice''" "[]" 0 ?r ?st1 ?res 2 "''bob''" "\<lparr>events = [], world = 0, results = [], failures = 0\<rparr>"
        1 "''alice''" ?lr 1 "''999''"]
    by (simp add: examplePrefix_def)
qed

text \<open>The batch command follows user 123456; the platform reports the username
  \<^verbatim>\<open>bob\<close> with the successful mutation; the success line shows the id.\<close>

theorem success_line_name_counterexample:
  "fst (followUser exampleClient ''123456'' 0)
     = \<lparr>mutation_success = True, mutation_username = Some ''bob'', mutation_error = None\<rparr>
   \<and> batchFollowCommand exampleNormalizeHandle examplePrefix exampleClient goodCookies []
        [''123456''] False 0
     = (0, \<lparr>events = [FollowUser ''123456'', ConsoleLog ''[ok] Followed 123456''], world = 1,
            results = [\<lparr>input = ''123456'', userId = Some ''123456'', success = True,
                        error = None\<rparr>],
            failures = 0\<rparr>)"
  by code_simp

section \<open>The documented scenario\<close>

text \<open>
  C9. Batch follow of \<^verbatim>\<open>["alice", "123456"]\<close>, where \<^verbatim>\<open>alice\<close> normalises to the handle
  \<^verbatim>\<open>alice\<close>, the lookup answers user id 999 and the mutation succeeds for both users: the
  report is \<^verbatim>\<open>{results: [{input: "@alice", userId: "999", success: true},
  {input: "123456", userId: "123456", success: true}], failures: 0}\<close> and the exit status
  is 0; with \<^verbatim>\<open>--json\<close> this report is the document printed last.
\<close>

theorem scenario_alice_and_id:
  assumes creds: "hasCredentials cookies"
    and norm: "nh ''alice'' = Some ''alice''"
    and look: "\<forall>w. lookup_success (fst (getUserIdByUsername cl ''alice'' w))
                 \<and> lookup_userId (fst (getUserIdByUsername cl ''alice'' w)) = Some ''999''"
    and foll: "\<forall>w. mutation_success (fst (followUser cl ''999'' w))
                 \<and> mutation_success (fst (followUser cl ''123456'' w))"
  shows "fst (batchFollowCommand nh p cl cookies warnings [''alice'', ''123456''] json w) = 0
       \<and> reportOf (snd (batchFollowCommand nh p cl cookies warnings [''alice'', ''123456''] json w))
           = \<lparr>report_results =
                [\<lparr>input = ''@alice'', userId = Some ''999'', success = True, error = None\<rparr>,
                 \<lparr>input = ''123456'', userId = Some ''123456'', success = True, error = None\<rparr>],
              report_failures = 0\<rparr>
       \<and> (json \<longrightarrow>
            last (events (snd (batchFollowCommand nh p cl cookies warnings
                    [''alice'', ''123456''] json w)))
              = ConsoleLogJSON
                 \<lparr>report_results =
                    [\<lparr>input = ''@alice'', userId = Some ''999'', success = True, error = None\<rparr>,
                     \<lparr>input = ''123456'', userId = Some ''123456'', success = True,
                      error = None\<rparr>],
                  report_failures = 0\<rparr>)"
proof -
  let ?st0 = "\<lparr>events = printWarnings p warnings, world = w, results = [], failures = 0\<rparr>"
  let ?st1 = "followLoop nh p cl json (length [''alice'', ''123456'']) [''alice'', ''123456''] ?st0"
  have a: "\<not> isUserId ''alice''" and b: "isUserId ''123456''"
    by (simp_all add: isUserId_def isDigit_def)
  have rep: "reportOf ?st1
           = \<lparr>report_results =
                [\<lparr>input = ''@alice'', userId = Some ''999'', success = True, error = None\<rparr>,
                 \<lparr>input = ''123456'', userId = Some ''123456'', success = True, error = None\<rparr>],
              report_failures = 0\<rparr>"
    using a b norm look foll
    by (simp add: reportOf_def followTarget_def followResolved_def Let_def case_prod_beta)
  then have fl: "failures ?st1 = 0"
    by (simp add: reportOf_def)
  show ?thesis
    using creds rep fl
    by (cases json) (simp_all add: batchFollowCommand_run Let_def)
qed

theorem scenario_alice_and_id_witness:
  "hasCredentials goodCookies \<and> exampleNormalizeHandle ''alice'' = Some ''alice''
   \<and> batchFollowCommand exampleNormalizeHandle examplePrefix exampleClient goodCookies []
        [''alice'', ''123456''] True 0
     = (0, \<lparr>events =
              [NormalizeHandle ''alice'', GetUserIdByUsername ''alice'', FollowUser ''999'',
               SetTimeout 500, FollowUser ''123456'', SetTimeout 500,
               ConsoleLogJSON
                 \<lparr>report_results =
                    [\<lparr>input = ''@alice'', userId = Some ''999'', success = True, error = None\<rparr>,
                     \<lparr>input = ''123456'', userId = Some ''123456'', success = True,
                      error = None\<rparr>],
                  report_failures = 0\<rparr>],
            world = 3,
            results =
              [\<lparr>input = ''@alice'', userId = Some ''999'', success = True, error = None\<rparr>,
               \<lparr>input = ''123456'', userId = Some ''123456'', success = True, error = None\<rparr>],
            failures = 0\<rparr>)
   \<and> reportOf (snd (batchFollowCommand exampleNormalizeHandle examplePrefix exampleClient
        goodCookies [] [''alice'', ''123456''] True 0))
     = \<lparr>report_results =
          [\<lparr>input = ''@alice'', userId = Some ''999'', success = True, error = None\<rparr>,
           \<lparr>input = ''123456'', userId = Some ''123456'', success = True, error = None\<rparr>],
        report_failures = 0\<rparr>"
proof -
  have h: "hasCredentials goodCookies"
    by (simp add: hasCredentials_def goodCookies_def truthy_def)
  have n: "exampleNormalizeHandle ''alice'' = Some ''alice''"
    by (simp add: exampleNormalizeHandle_def isHandleChar_def)
  have l: "\<forall>w. lookup_success (fst (getUserIdByUsername exampleClient ''alice'' w))
             \<and> lookup_userId (fst (getUserIdByUsername exampleClient ''alice'' w)) = Some ''999''"
    by (simp add: exampleClient_def exampleLookup_def)
  have f: "\<forall>w. mutation_success (fst (followUser exampleClient ''999'' w))
             \<and> mutation_success (fst (followUser exampleClient ''123456'' w))"
    by (simp add: exampleClient_def exampleMutation_def)
  have e: "batchFollowCommand exampleNormalizeHandle examplePrefix exampleClient goodCookies []
        [''alice'', ''123456''] True 0
     = (0, \<lparr>events =
              [NormalizeHandle ''alice'', GetUserIdByUsername ''alice'', FollowUser ''999'',
               SetTimeout 500, FollowUser ''123456'', SetTimeout 500,
               ConsoleLogJSON
                 \<lparr>report_results =
                    [\<lparr>input = ''@alice'', userId = Some ''999'', success = True, error = None\<rparr>,
                     \<lparr>input = ''123456'', userId = Some ''123456'', success = True,
                      error = None\<rparr>],
                  report_failures = 0\<rparr>],
            world = 3,
            results =
              [\<lparr>input = ''@alice'', userId = Some ''999'', success = True, error = None\<rparr>,
               \<lparr>input = ''123456'', userId = Some ''123456'', success = True, error = None\<rparr>],
            failures = 0\<rparr>)"
    by code_simp
  show ?thesis
    using h n e
      scenario_alice_and_id [where cookies = goodCookies and nh = exampleNormalizeHandle
        and cl = exampleClient and p = examplePrefix and warnings = "[]" and json = True
        and w = 0, OF h n l f]
    by simp
qed

end
